theory Spec2Isabelle
  imports Main "HOL-Library.Monad_Syntax"
begin

section \<open>The hello-mcp-python example server\<close>

text \<open>
  The file \<^verbatim>\<open>examples/hello-mcp-python/server.py\<close> registers two handlers on an
  MCP server object: \<^verbatim>\<open>list_tools\<close>, which returns the two tool descriptors, and
  \<^verbatim>\<open>call_tool\<close>, which dispatches on the tool name. Both are embedded here as HOL
  functions. An exception is a value \<open>Inl e\<close> of the result type, a normal return is
  \<open>Inr v\<close>, and the one thing the handlers read from their environment, the wall
  clock, is an explicit argument. Both handlers are coroutines whose bodies never
  await, so awaiting one runs its body from start to end.
\<close>

subsection \<open>Values\<close>

text \<open>
  The values an argument dictionary can hold. The dictionary is decoded from JSON;
  the scalars \<^verbatim>\<open>None\<close>, \<^verbatim>\<open>bool\<close>, \<^verbatim>\<open>int\<close> and \<^verbatim>\<open>str\<close> are modelled. Floats and
  nested containers are left out: their rendering goes through Python's float
  printing and \<^verbatim>\<open>repr\<close>, which this development does not describe.
\<close>

datatype pyval = PyNone | PyBool bool | PyInt int | PyStr string

text \<open>
  The literal dictionaries of the source (the \<^verbatim>\<open>inputSchema\<close> of a tool) are nested
  dictionaries and lists whose leaves are strings. Key order is kept as written.
\<close>

datatype json = JStr string | JList "json list" | JDict "(string \<times> json) list"

text \<open>The exceptions the two handlers can raise, with their payload.\<close>

datatype py_error = KeyError string | ValueError string

text \<open>
  \<^verbatim>\<open>mcp.types.Tool\<close> and \<^verbatim>\<open>mcp.types.TextContent\<close>, with the fields the source sets
  (every other field of these classes keeps its default).
\<close>

record tool =
  tool_name :: string
  description :: string
  inputSchema :: json

record text_content =
  content_type :: string
  content_text :: string

subsection \<open>The wall clock\<close>

text \<open>
  What \<^verbatim>\<open>datetime.now()\<close> returns: a naive local date and time (no time zone).
\<close>

record datetime =
  year :: nat
  month :: nat
  day :: nat
  hour :: nat
  minute :: nat
  second :: nat
  microsecond :: nat

definition is_leap :: "nat \<Rightarrow> bool" where
  "is_leap y = (y mod 4 = 0 \<and> (y mod 100 \<noteq> 0 \<or> y mod 400 = 0))"

definition days_in_month :: "nat \<Rightarrow> nat \<Rightarrow> nat" where
  "days_in_month y m =
     (if m = 2 then (if is_leap y then 29 else 28)
      else if m = 4 \<or> m = 6 \<or> m = 9 \<or> m = 11 then 30
      else 31)"

text \<open>
  The class invariant of \<^verbatim>\<open>datetime\<close>: the constructor refuses every other
  combination of fields, so every value \<^verbatim>\<open>datetime.now()\<close> returns satisfies it.
\<close>

definition valid_datetime :: "datetime \<Rightarrow> bool" where
  "valid_datetime d =
     (1 \<le> year d \<and> year d \<le> 9999 \<and>
      1 \<le> month d \<and> month d \<le> 12 \<and>
      1 \<le> day d \<and> day d \<le> days_in_month (year d) (month d) \<and>
      hour d < 24 \<and> minute d < 60 \<and> second d < 60 \<and>
      microsecond d < 1000000)"

subsection \<open>Rendering\<close>

definition digit_char :: "nat \<Rightarrow> char" where
  "digit_char n = ''0123456789'' ! (n mod 10)"

text \<open>Decimal digits of a natural number, most significant first.\<close>

fun show_nat :: "nat \<Rightarrow> string" where
  "show_nat n =
     (if n < 10 then [digit_char n]
      else show_nat (n div 10) @ [digit_char (n mod 10)])"

declare show_nat.simps [simp del]

definition show_int :: "int \<Rightarrow> string" where
  "show_int i = (if i < 0 then CHR ''-'' # show_nat (nat (- i)) else show_nat (nat i))"

text \<open>
  A replacement field \<^verbatim>\<open>{v}\<close> of an f-string is \<^verbatim>\<open>format(v, '')\<close>, which for
  these types is \<^verbatim>\<open>str(v)\<close>.
\<close>

fun py_format :: "pyval \<Rightarrow> string" where
  "py_format PyNone = ''None''"
| "py_format (PyBool b) = (if b then ''True'' else ''False'')"
| "py_format (PyInt i) = show_int i"
| "py_format (PyStr s) = s"

text \<open>The conversion \<^verbatim>\<open>%0wd\<close> of a non-negative number.\<close>

definition zero_pad :: "nat \<Rightarrow> nat \<Rightarrow> string" where
  "zero_pad w n = replicate (w - length (show_nat n)) (CHR ''0'') @ show_nat n"

text \<open>
  \<^verbatim>\<open>datetime.isoformat()\<close> with its default separator and time specification, on a
  naive value: the fraction is printed only when the microsecond is not zero.
\<close>

definition isoformat :: "datetime \<Rightarrow> string" where
  "isoformat d =
     zero_pad 4 (year d) @ ''-'' @ zero_pad 2 (month d) @ ''-'' @ zero_pad 2 (day d) @
     ''T'' @ zero_pad 2 (hour d) @ '':'' @ zero_pad 2 (minute d) @ '':'' @
     zero_pad 2 (second d) @
     (if microsecond d = 0 then '''' else ''.'' @ zero_pad 6 (microsecond d))"

subsection \<open>Reading a timestamp back\<close>

text \<open>
  The specification asks that the timestamp embedded in the answer of the \<^verbatim>\<open>time\<close>
  tool parses as a valid date-time. The source has no parser; the one below follows
  the specification's words: it accepts the extended ISO-8601 form
  \<^verbatim>\<open>YYYY-MM-DDTHH:MM:SS\<close>, optionally followed by \<^verbatim>\<open>.ffffff\<close>, and only when the
  fields read form a valid date and time.
\<close>

definition digit_val :: "char \<Rightarrow> nat option" where
  "digit_val c =
     (let k = (of_char c :: nat) in if 48 \<le> k \<and> k \<le> 57 then Some (k - 48) else None)"

definition parse_step :: "char \<Rightarrow> nat option \<Rightarrow> nat option" where
  "parse_step c acc =
     (case acc of None \<Rightarrow> None
      | Some a \<Rightarrow> (case digit_val c of None \<Rightarrow> None | Some v \<Rightarrow> Some (10 * a + v)))"

definition parse_nat :: "string \<Rightarrow> nat option" where
  "parse_nat s = (if s = [] then None else fold parse_step s (Some 0))"

definition parse_iso8601 :: "string \<Rightarrow> datetime option" where
  "parse_iso8601 s =
     (if (length s = 19 \<or> length s = 26 \<and> s ! 19 = CHR ''.'') \<and>
         s ! 4 = CHR ''-'' \<and> s ! 7 = CHR ''-'' \<and> s ! 10 = CHR ''T'' \<and>
         s ! 13 = CHR '':'' \<and> s ! 16 = CHR '':''
      then do {
        y \<leftarrow> parse_nat (take 4 s);
        mo \<leftarrow> parse_nat (take 2 (drop 5 s));
        dd \<leftarrow> parse_nat (take 2 (drop 8 s));
        h \<leftarrow> parse_nat (take 2 (drop 11 s));
        mi \<leftarrow> parse_nat (take 2 (drop 14 s));
        se \<leftarrow> parse_nat (take 2 (drop 17 s));
        us \<leftarrow> (if length s = 19 then Some 0 else parse_nat (drop 20 s));
        let d = \<lparr>year = y, month = mo, day = dd, hour = h, minute = mi, second = se,
                   microsecond = us\<rparr>;
        if valid_datetime d then Some d else None
      }
      else None)"

subsection \<open>Reading a schema\<close>



subsection \<open>The handlers\<close>

text \<open>
  A handler runs against the ambient clock and either raises or returns. Neither
  handler assigns to a variable outside its body or performs input or output, so a
  handler has no state to hand back.
\<close>

type_synonym 'a handler = "datetime \<Rightarrow> py_error + 'a"

definition list_tools :: "tool list handler" where
  "list_tools now =
     Inr [\<lparr>tool_name = ''hello'',
           description = ''Say hello to someone'',
           inputSchema = JDict
             [(''type'', JStr ''object''),
              (''properties'', JDict
                 [(''name'', JDict [(''type'', JStr ''string''),
                                    (''description'', JStr ''The name to greet'')])]),
              (''required'', JList [JStr ''name''])]\<rparr>,
          \<lparr>tool_name = ''time'',
           description = ''Get the current time'',
           inputSchema = JDict [(''type'', JStr ''object''), (''properties'', JDict [])]\<rparr>]"

text \<open>Subscription \<^verbatim>\<open>d[k]\<close> of a dictionary: a missing key raises \<^verbatim>\<open>KeyError(k)\<close>.\<close>

definition getitem :: "(string \<rightharpoonup> 'v) \<Rightarrow> string \<Rightarrow> py_error + 'v" where
  "getitem d k = (case d k of None \<Rightarrow> Inl (KeyError k) | Some v \<Rightarrow> Inr v)"

definition call_tool :: "string \<Rightarrow> (string \<rightharpoonup> pyval) \<Rightarrow> text_content list handler" where
  "call_tool name arguments now =
     (if name = ''hello'' then
        (case getitem arguments ''name'' of
           Inl e \<Rightarrow> Inl e
         | Inr v \<Rightarrow>
             Inr [\<lparr>content_type = ''text'',
                   content_text = ''Hello, '' @ py_format v @ ''! Welcome to MCP.''\<rparr>])
      else if name = ''time'' then
        Inr [\<lparr>content_type = ''text'', content_text = ''Current time: '' @ isoformat now\<rparr>]
      else Inl (ValueError (''Unknown tool: '' @ name)))"

section \<open>Auxiliary facts\<close>

subsection \<open>Digits and padding\<close>

lemma below_ten: "(k::nat) < 10 \<Longrightarrow> k = 0 \<or> k = 1 \<or> k = 2 \<or> k = 3 \<or> k = 4 \<or> k = 5 \<or> k = 6 \<or> k = 7 \<or> k = 8 \<or> k = 9"
  by arith

lemma digit_val_digit_char: "digit_val (digit_char n) = Some (n mod 10)"
  using below_ten [of "n mod 10"] by (auto simp add: digit_val_def digit_char_def)

lemma fold_show_nat: "fold parse_step (show_nat n) (Some 0) = Some n"
proof (induction n rule: show_nat.induct)
  case (1 n)
  show ?case
  proof (cases "n < 10")
    case True
    then show ?thesis
      by (subst show_nat.simps) (simp add: parse_step_def digit_val_digit_char)
  next
    case False
    with 1 have "fold parse_step (show_nat (n div 10)) (Some 0) = Some (n div 10)" by simp
    with False show ?thesis
      by (subst show_nat.simps) (simp add: parse_step_def digit_val_digit_char)
  qed
qed

lemma show_nat_nonempty: "show_nat n \<noteq> []"
  by (subst show_nat.simps) simp

lemma fold_zeros: "fold parse_step (replicate k (CHR ''0'')) (Some 0) = Some 0"
  by (induction k) (simp_all add: parse_step_def digit_val_def del: fold_replicate)

lemma length_show_nat: "n < 10 ^ w \<Longrightarrow> 0 < w \<Longrightarrow> length (show_nat n) \<le> w"
proof (induction n arbitrary: w rule: show_nat.induct)
  case (1 n)
  show ?case
  proof (cases "n < 10")
    case True
    with 1(3) show ?thesis by (subst show_nat.simps) simp
  next
    case False
    obtain v where w: "w = Suc v" using 1(3) by (cases w) auto
    with 1(2) False have v: "0 < v" by (cases v) auto
    from 1(2) w have "n div 10 < 10 ^ v" by (simp add: less_mult_imp_div_less mult.commute)
    with 1(1) False v have "length (show_nat (n div 10)) \<le> v" by simp
    with False w show ?thesis by (subst show_nat.simps) simp
  qed
qed

lemma length_zero_pad: "n < 10 ^ w \<Longrightarrow> 0 < w \<Longrightarrow> length (zero_pad w n) = w"
  using length_show_nat [of n w] by (simp add: zero_pad_def)

lemma parse_nat_zero_pad: "parse_nat (zero_pad w n) = Some n"
  by (simp add: parse_nat_def zero_pad_def show_nat_nonempty fold_zeros fold_show_nat
      del: fold_replicate)

subsection \<open>A printed timestamp reads back\<close>

lemma parse_frame:
  assumes "length a = 4" "length b = 2" "length c = 2" "length e = 2" "length f = 2"
    "length g = 2" "r = [] \<or> (\<exists>u. r = CHR ''.'' # u \<and> length u = 6)"
    "parse_nat a = Some y" "parse_nat b = Some mo" "parse_nat c = Some dd"
    "parse_nat e = Some h" "parse_nat f = Some mi" "parse_nat g = Some se"
    "(if r = [] then Some 0 else parse_nat (tl r)) = Some us"
    "valid_datetime \<lparr>year = y, month = mo, day = dd, hour = h, minute = mi, second = se,
                   microsecond = us\<rparr>"
  shows "parse_iso8601 (a @ ''-'' @ b @ ''-'' @ c @ ''T'' @ e @ '':'' @ f @ '':'' @ g @ r) =
     Some \<lparr>year = y, month = mo, day = dd, hour = h, minute = mi, second = se,
                   microsecond = us\<rparr>"
  using assms by (auto simp add: parse_iso8601_def nth_append)

lemma days_in_month_le: "days_in_month y m \<le> 31"
  by (simp add: days_in_month_def)

lemma iso_roundtrip:
  assumes "valid_datetime d"
  shows "parse_iso8601 (isoformat d) = Some d"
proof -
  from assms have "day d \<le> days_in_month (year d) (month d)"
    by (simp add: valid_datetime_def)
  then have dd: "day d < 10 ^ 2"
    using days_in_month_le [of "year d" "month d"] by simp
  from assms have bounds: "year d < 10 ^ 4" "month d < 10 ^ 2" "hour d < 10 ^ 2"
    "minute d < 10 ^ 2" "second d < 10 ^ 2" "microsecond d < 10 ^ 6"
    by (simp_all add: valid_datetime_def)
  note lens = bounds(1,2) [THEN length_zero_pad] dd [THEN length_zero_pad]
    bounds(3-6) [THEN length_zero_pad]
  have frac: "(if microsecond d = 0 then [] else ''.'' @ zero_pad 6 (microsecond d)) = [] \<or>
    (\<exists>u. (if microsecond d = 0 then [] else ''.'' @ zero_pad 6 (microsecond d)) = CHR ''.'' # u
       \<and> length u = 6)"
    using lens by simp
  have us: "(if (if microsecond d = 0 then [] else ''.'' @ zero_pad 6 (microsecond d)) = []
      then Some 0
      else parse_nat (tl (if microsecond d = 0 then [] else ''.'' @ zero_pad 6 (microsecond d))))
    = Some (microsecond d)"
    by (simp add: parse_nat_zero_pad)
  have "parse_iso8601 (isoformat d) =
    Some \<lparr>year = year d, month = month d, day = day d, hour = hour d, minute = minute d,
      second = second d, microsecond = microsecond d\<rparr>"
    unfolding isoformat_def
    by (rule parse_frame [OF _ _ _ _ _ _ frac _ _ _ _ _ _ us])
      (use assms in \<open>simp_all add: lens parse_nat_zero_pad valid_datetime_def\<close>)
  then show ?thesis by simp
qed

section \<open>The tool registry\<close>

text \<open>
  C3. Enumerating the tools returns exactly two descriptors, the first named
  \<^verbatim>\<open>hello\<close> and the second named \<^verbatim>\<open>time\<close>, and the description of each is a
  non-empty string.
\<close>

theorem list_tools_two_descriptors:
  "\<exists>a b. list_tools now = Inr [a, b] \<and>
     tool_name a = ''hello'' \<and> tool_name b = ''time'' \<and>
     description a \<noteq> '''' \<and> description b \<noteq> ''''"
  by (simp add: list_tools_def)


section \<open>The dispatcher\<close>

subsection \<open>The greeting\<close>

text \<open>
  C1. Calling \<^verbatim>\<open>hello\<close> with an argument dictionary that binds \<^verbatim>\<open>name\<close> to a string
  \<open>n\<close> returns exactly one text item, whose text is \<open>n\<close> between \<^verbatim>\<open>Hello, \<close> and
  \<^verbatim>\<open>! Welcome to MCP.\<close>
\<close>

theorem call_tool_hello_greets:
  assumes "arguments ''name'' = Some (PyStr n)"
  shows "call_tool ''hello'' arguments now =
    Inr [\<lparr>content_type = ''text'', content_text = ''Hello, '' @ n @ ''! Welcome to MCP.''\<rparr>]"
  using assms by (simp add: call_tool_def getitem_def)

theorem call_tool_hello_greets_witness:
  "[''name'' \<mapsto> PyStr ''Ada''] ''name'' = Some (PyStr ''Ada'') \<and>
   call_tool ''hello'' [''name'' \<mapsto> PyStr ''Ada'']
     \<lparr>year = 2024, month = 2, day = 29, hour = 23, minute = 59, second = 7,
      microsecond = 0\<rparr> =
   Inr [\<lparr>content_type = ''text'', content_text = ''Hello, Ada! Welcome to MCP.''\<rparr>]"
  using call_tool_hello_greets [of "[''name'' \<mapsto> PyStr ''Ada'']" "''Ada''"
      "\<lparr>year = 2024, month = 2, day = 29, hour = 23, minute = 59, second = 7,
        microsecond = 0\<rparr>"]
  by simp

text \<open>
  C4, as the code has it. Calling \<^verbatim>\<open>hello\<close> with an argument dictionary that has no
  key \<^verbatim>\<open>name\<close> raises the lookup error of the dictionary, \<^verbatim>\<open>KeyError('name')\<close>; the
  dispatcher defines no error of its own for a missing argument.
\<close>

theorem call_tool_hello_missing_name:
  assumes "arguments ''name'' = None"
  shows "call_tool ''hello'' arguments now = Inl (KeyError ''name'')"
proof -
  from assms have "getitem arguments ''name'' = Inl (KeyError ''name'')"
    by (simp add: getitem_def)
  then show ?thesis
    by (simp add: call_tool_def)
qed

theorem call_tool_hello_missing_name_witness:
  "[''title'' \<mapsto> PyStr ''Dr''] ''name'' = None \<and>
   call_tool ''hello'' [''title'' \<mapsto> PyStr ''Dr'']
     \<lparr>year = 1999, month = 12, day = 31, hour = 0, minute = 0, second = 0,
      microsecond = 1\<rparr> =
   Inl (KeyError ''name'')"
  using call_tool_hello_missing_name [of "[''title'' \<mapsto> PyStr ''Dr'']"
      "\<lparr>year = 1999, month = 12, day = 31, hour = 0, minute = 0, second = 0,
        microsecond = 1\<rparr>"]
  by simp

text \<open>
  C4, as the specification words it, fails: on the empty argument dictionary the
  call ends in the generic \<^verbatim>\<open>KeyError\<close>.
\<close>

theorem call_tool_hello_empty_arguments_KeyError:
  "call_tool ''hello'' Map.empty
     \<lparr>year = 2024, month = 1, day = 1, hour = 12, minute = 0, second = 0,
      microsecond = 0\<rparr> =
   Inl (KeyError ''name'')"
  by (simp add: call_tool_def getitem_def)



text \<open>
  C9. Only the entry \<^verbatim>\<open>name\<close> of the argument dictionary reaches the output of
  \<^verbatim>\<open>hello\<close>: two dictionaries that bind \<^verbatim>\<open>name\<close> to the same value give the same
  result, however they differ on other keys.
\<close>

theorem call_tool_hello_noninterference:
  assumes "arguments ''name'' = Some v" and "arguments' ''name'' = Some v"
  shows "call_tool ''hello'' arguments now = call_tool ''hello'' arguments' now'"
proof -
  have "getitem arguments ''name'' = getitem arguments' ''name''"
    using assms by (simp add: getitem_def)
  then show ?thesis
    by (simp add: call_tool_def)
qed

theorem call_tool_hello_noninterference_witness:
  "[''name'' \<mapsto> PyStr ''Ada''] ''name'' = Some (PyStr ''Ada'') \<and>
   [''name'' \<mapsto> PyStr ''Ada'', ''debug'' \<mapsto> PyBool True] ''name'' = Some (PyStr ''Ada'') \<and>
   call_tool ''hello'' [''name'' \<mapsto> PyStr ''Ada'']
     \<lparr>year = 2024, month = 2, day = 29, hour = 23, minute = 59, second = 7,
      microsecond = 0\<rparr> =
   call_tool ''hello'' [''name'' \<mapsto> PyStr ''Ada'', ''debug'' \<mapsto> PyBool True]
     \<lparr>year = 2025, month = 6, day = 30, hour = 8, minute = 15, second = 0,
      microsecond = 0\<rparr>"
  using call_tool_hello_noninterference [of "[''name'' \<mapsto> PyStr ''Ada'']" "PyStr ''Ada''"
      "[''name'' \<mapsto> PyStr ''Ada'', ''debug'' \<mapsto> PyBool True]"
      "\<lparr>year = 2024, month = 2, day = 29, hour = 23, minute = 59, second = 7,
        microsecond = 0\<rparr>"
      "\<lparr>year = 2025, month = 6, day = 30, hour = 8, minute = 15, second = 0,
        microsecond = 0\<rparr>"]
  by simp



subsection \<open>The clock\<close>

text \<open>
  C5. Calling \<^verbatim>\<open>time\<close> succeeds on every argument dictionary and does not look at
  it: the result is one text item, \<^verbatim>\<open>Current time: \<close> followed by the clock's value
  in ISO-8601 form, and, the clock's value being a valid date and time, that
  timestamp reads back as the date and time the clock showed.
\<close>

theorem call_tool_time_timestamp:
  "call_tool ''time'' arguments now =
      Inr [\<lparr>content_type = ''text'', content_text = ''Current time: '' @ isoformat now\<rparr>] \<and>
   call_tool ''time'' arguments' now = call_tool ''time'' arguments now \<and>
   (valid_datetime now \<longrightarrow> parse_iso8601 (isoformat now) = Some now)"
proof (intro conjI impI)
  show "call_tool ''time'' arguments now =
      Inr [\<lparr>content_type = ''text'', content_text = ''Current time: '' @ isoformat now\<rparr>]"
    by (simp add: call_tool_def)
  show "call_tool ''time'' arguments' now = call_tool ''time'' arguments now"
    by (simp add: call_tool_def)
  show "parse_iso8601 (isoformat now) = Some now" if "valid_datetime now"
    using that by (rule iso_roundtrip)
qed

theorem call_tool_time_timestamp_witness:
  "valid_datetime \<lparr>year = 2024, month = 2, day = 29, hour = 23, minute = 59, second = 7,
      microsecond = 1500\<rparr> \<and>
   call_tool ''time'' Map.empty
     \<lparr>year = 2024, month = 2, day = 29, hour = 23, minute = 59, second = 7,
      microsecond = 1500\<rparr> =
   Inr [\<lparr>content_type = ''text'',
         content_text = ''Current time: 2024-02-29T23:59:07.001500''\<rparr>] \<and>
   parse_iso8601 ''2024-02-29T23:59:07.001500'' =
     Some \<lparr>year = 2024, month = 2, day = 29, hour = 23, minute = 59, second = 7,
      microsecond = 1500\<rparr>"
proof -
  have v: "valid_datetime \<lparr>year = 2024, month = 2, day = 29, hour = 23, minute = 59,
      second = 7, microsecond = 1500\<rparr>"
    by (simp add: valid_datetime_def days_in_month_def is_leap_def)
  have s: "isoformat \<lparr>year = 2024, month = 2, day = 29, hour = 23, minute = 59,
      second = 7, microsecond = 1500\<rparr> = ''2024-02-29T23:59:07.001500''"
    by code_simp
  from call_tool_time_timestamp [of Map.empty
      "\<lparr>year = 2024, month = 2, day = 29, hour = 23, minute = 59, second = 7,
        microsecond = 1500\<rparr>" Map.empty] v s
  show ?thesis
    by simp
qed

subsection \<open>Unknown names\<close>



text \<open>
  C6. Every name the dispatcher has a branch for, that is, every name on which a
  call ends otherwise than in the unknown-tool error, is the name of a descriptor
  that \<^verbatim>\<open>list_tools\<close> returns.
\<close>

theorem call_tool_names_registered:
  assumes "call_tool name arguments now \<noteq> Inl (ValueError (''Unknown tool: '' @ name))"
  shows "\<exists>ts. list_tools now' = Inr ts \<and> name \<in> tool_name ` set ts"
proof -
  from assms have "name = ''hello'' \<or> name = ''time''"
    by (auto simp add: call_tool_def split: if_splits)
  then show ?thesis
    by (auto simp add: list_tools_def)
qed

theorem call_tool_names_registered_witness:
  "call_tool ''time'' Map.empty
     \<lparr>year = 2024, month = 2, day = 29, hour = 23, minute = 59, second = 7,
      microsecond = 0\<rparr> \<noteq> Inl (ValueError (''Unknown tool: '' @ ''time'')) \<and>
   (\<exists>ts. list_tools
     \<lparr>year = 2024, month = 2, day = 29, hour = 23, minute = 59, second = 7,
      microsecond = 0\<rparr> = Inr ts \<and> ''time'' \<in> tool_name ` set ts)"
proof -
  have h: "call_tool ''time'' Map.empty
     \<lparr>year = 2024, month = 2, day = 29, hour = 23, minute = 59, second = 7,
      microsecond = 0\<rparr> \<noteq> Inl (ValueError (''Unknown tool: '' @ ''time''))"
    by (simp add: call_tool_def)
  from call_tool_names_registered [OF h] h show ?thesis
    by blast
qed

end
